theory Spec2Isabelle
  imports Complex_Main "HOL-Library.Log_Nat"
begin

section \<open>JavaScript numbers\<close>

text \<open>
  The score of a question and the average score of a set are computed with the
  JavaScript operators \<^verbatim>\<open>/\<close> and \<^verbatim>\<open>*\<close> on numbers, which are IEEE-754 binary64
  values, and then rounded with \<^verbatim>\<open>Math.round\<close>. A finite double is a rational
  number, so a number is modelled as a \<^typ>\<open>rat\<close> and each operator as the exact
  operation followed by rounding to the nearest value with a 53-bit significand, ties
  to the even significand. The exponent range is not bounded in the model: the operands
  that occur (counts of checks and of errors, scores between 0 and 100) are far from
  overflow and from the subnormal range.
\<close>

definition pow2 :: "int \<Rightarrow> rat" where
  "pow2 k = (if 0 \<le> k then 2 ^ nat k else 1 / 2 ^ nat (- k))"

text \<open>The binary exponent of a positive rational: the \<open>k\<close> with \<open>2\<^sup>k \<le> x < 2\<^sup>k\<^sup>+\<^sup>1\<close>.\<close>

definition ilog2 :: "rat \<Rightarrow> int" where
  "ilog2 x = (case quotient_of x of (p, q) \<Rightarrow>
      (let k = bitlen p - bitlen q in if pow2 k \<le> x then k else k - 1))"

definition round_half_even :: "rat \<Rightarrow> int" where
  "round_half_even x = (let n = \<lfloor>x\<rfloor>; d = x - of_int n in
     if d < 1 / 2 then n else if 1 / 2 < d then n + 1 else if even n then n else n + 1)"

text \<open>Rounding of an exact result to binary64.\<close>

definition fl :: "rat \<Rightarrow> rat" where
  "fl x = (if x = 0 then 0 else
     (let e = ilog2 \<bar>x\<bar> - 52
      in sgn x * of_int (round_half_even (\<bar>x\<bar> / pow2 e)) * pow2 e))"

text \<open>
  \<^verbatim>\<open>a / b\<close> and \<^verbatim>\<open>a * b\<close>. Both divisions of the program have a divisor of at least 1
  (\<open>totalChecks \<ge> 4\<close> and \<open>Math.max(1, results.length)\<close>), so the quotient by zero of
  JavaScript (an infinity or NaN) is never asked for.
\<close>

definition js_div :: "rat \<Rightarrow> rat \<Rightarrow> rat" where
  "js_div a b = fl (a / b)"

definition js_mul :: "rat \<Rightarrow> rat \<Rightarrow> rat" where
  "js_mul a b = fl (a * b)"

text \<open>\<^verbatim>\<open>Math.round\<close>: the nearest integer, a tie going up.\<close>

definition Math_round :: "rat \<Rightarrow> int" where
  "Math_round x = \<lfloor>x + 1 / 2\<rfloor>"

text \<open>Template literals print a number in decimal.\<close>

definition digit_char :: "nat \<Rightarrow> char" where
  "digit_char d = char_of (48 + d)"

fun show_nat :: "nat \<Rightarrow> string" where
  "show_nat n = (if n < 10 then [digit_char n] else show_nat (n div 10) @ [digit_char (n mod 10)])"

declare show_nat.simps [simp del]

definition show_int :: "int \<Rightarrow> string" where
  "show_int i = (if i < 0 then CHR ''-'' # show_nat (nat (- i)) else show_nat (nat i))"

section \<open>Data model\<close>

text \<open>
  A value of type \<^verbatim>\<open>any\<close>. Strings are lists of characters, one \<^typ>\<open>char\<close> for each
  code unit that \<^verbatim>\<open>.length\<close> counts.
\<close>

datatype jsval =
    Undefined
  | Null
  | Bool bool
  | Num rat
  | Str string
  | Arr "jsval list"
  | Obj "(string \<times> jsval) list"

text \<open>The type \<^verbatim>\<open>string | number\<close> of \<^verbatim>\<open>id\<close>, \<^verbatim>\<open>correctAnswer\<close> and \<^verbatim>\<open>difficulty\<close>.\<close>

datatype str_or_num = S string | N rat

fun js_of :: "str_or_num \<Rightarrow> jsval" where
  "js_of (S s) = Str s"
| "js_of (N n) = Num n"

text \<open>
  \<^verbatim>\<open>interface ValidationRule\<close>. An optional property is an \<open>option\<close>, \<open>None\<close> when the
  property is missing. The bounds are integers. A \<^verbatim>\<open>RegExp\<close> is the predicate that its
  \<^verbatim>\<open>test\<close> method computes (a pattern without the \<^verbatim>\<open>g\<close> and \<^verbatim>\<open>y\<close> flags, whose
  \<^verbatim>\<open>test\<close> keeps no state), and a custom validator is a pure predicate.
\<close>

record ValidationRule =
  field :: string
  minLength :: "int option"
  maxLength :: "int option"
  required :: "bool option"
  pattern :: "(string \<Rightarrow> bool) option"
  customValidator :: "(jsval \<Rightarrow> bool) option"
  errorMessage :: "string option"

text \<open>
  \<^verbatim>\<open>interface ValidationError\<close>; its properties \<^verbatim>\<open>field\<close> and \<^verbatim>\<open>value\<close> are
  \<open>err_field\<close> and \<open>err_value\<close> here. \<open>err_value\<close> is \<open>None\<close> when the object literal
  has no \<^verbatim>\<open>value\<close> property.
\<close>

record ValidationError =
  err_field :: string
  message :: string
  err_value :: "jsval option"
  rule :: "string option"

record ValidationResult =
  valid :: bool
  errors :: "ValidationError list"
  warnings :: "ValidationError list"
  score :: int

text \<open>
  \<^verbatim>\<open>interface QuizQuestion\<close>. \<open>qid\<close> is the property \<^verbatim>\<open>id\<close>. The index signature
  \<^verbatim>\<open>[key: string]: any\<close> is \<open>extra\<close>: the value that reading a property of any other
  name gives, \<open>Undefined\<close> when there is none.
\<close>

record QuizQuestion =
  qid :: "str_or_num option"
  question :: string
  options :: "string list option"
  correctAnswer :: "str_or_num option"
  explanation :: "string option"
  category :: "string option"
  difficulty :: "str_or_num option"
  extra :: "string \<Rightarrow> jsval"

text \<open>
  \<^verbatim>\<open>interface QuizValidationOptions\<close>; \<open>None\<close> is a property that the caller left out.
  Lengths and counts are integers.
\<close>

record QuizValidationOptions =
  questionMinLength :: "int option"
  questionMaxLength :: "int option"
  optionMinLength :: "int option"
  optionMaxLength :: "int option"
  explanationMinLength :: "int option"
  explanationMaxLength :: "int option"
  minOptions :: "int option"
  maxOptions :: "int option"
  requireExplanation :: "bool option"
  requireCategory :: "bool option"
  requireDifficulty :: "bool option"
  customRules :: "ValidationRule list option"

text \<open>
  \<^verbatim>\<open>Required<Omit<QuizValidationOptions, 'customRules'>>\<close>, the type of
  \<^verbatim>\<open>DEFAULT_OPTIONS\<close>; the local \<^verbatim>\<open>opts\<close> is read at these properties only.
\<close>

record RequiredOptions =
  questionMinLength' :: int
  questionMaxLength' :: int
  optionMinLength' :: int
  optionMaxLength' :: int
  explanationMinLength' :: int
  explanationMaxLength' :: int
  minOptions' :: int
  maxOptions' :: int
  requireExplanation' :: bool
  requireCategory' :: bool
  requireDifficulty' :: bool

definition DEFAULT_OPTIONS :: RequiredOptions where
  "DEFAULT_OPTIONS = \<lparr>
     questionMinLength' = 5,
     questionMaxLength' = 500,
     optionMinLength' = 1,
     optionMaxLength' = 200,
     explanationMinLength' = 10,
     explanationMaxLength' = 1000,
     minOptions' = 2,
     maxOptions' = 10,
     requireExplanation' = False,
     requireCategory' = False,
     requireDifficulty' = False\<rparr>"

text \<open>The default argument \<^verbatim>\<open>options = {}\<close>.\<close>

definition no_options :: QuizValidationOptions where
  "no_options = \<lparr>
     questionMinLength = None,
     questionMaxLength = None,
     optionMinLength = None,
     optionMaxLength = None,
     explanationMinLength = None,
     explanationMaxLength = None,
     minOptions = None,
     maxOptions = None,
     requireExplanation = None,
     requireCategory = None,
     requireDifficulty = None,
     customRules = None\<rparr>"

text \<open>\<^verbatim>\<open>{ ...DEFAULT_OPTIONS, ...options }\<close>: a property of \<open>options\<close> overrides the default.\<close>

definition override :: "'a \<Rightarrow> 'a option \<Rightarrow> 'a" where
  "override d x = (case x of None \<Rightarrow> d | Some v \<Rightarrow> v)"

definition spread :: "RequiredOptions \<Rightarrow> QuizValidationOptions \<Rightarrow> RequiredOptions" where
  "spread d opts = \<lparr>
     questionMinLength' = override (questionMinLength' d) (questionMinLength opts),
     questionMaxLength' = override (questionMaxLength' d) (questionMaxLength opts),
     optionMinLength' = override (optionMinLength' d) (optionMinLength opts),
     optionMaxLength' = override (optionMaxLength' d) (optionMaxLength opts),
     explanationMinLength' = override (explanationMinLength' d) (explanationMinLength opts),
     explanationMaxLength' = override (explanationMaxLength' d) (explanationMaxLength opts),
     minOptions' = override (minOptions' d) (minOptions opts),
     maxOptions' = override (maxOptions' d) (maxOptions opts),
     requireExplanation' = override (requireExplanation' d) (requireExplanation opts),
     requireCategory' = override (requireCategory' d) (requireCategory opts),
     requireDifficulty' = override (requireDifficulty' d) (requireDifficulty opts)\<rparr>"

record Summary =
  total :: nat
  passed :: nat
  failed :: nat
  averageScore :: int

text \<open>The object that \<^verbatim>\<open>validateQuizSet\<close> returns; \<open>set_valid\<close> is its \<^verbatim>\<open>valid\<close>.\<close>

record QuizSetResult =
  set_valid :: bool
  results :: "ValidationResult list"
  summary :: Summary

section \<open>validateField\<close>

text \<open>\<^verbatim>\<open>value === undefined || value === null || value === ''\<close>\<close>

fun is_empty :: "jsval \<Rightarrow> bool" where
  "is_empty Undefined = True"
| "is_empty Null = True"
| "is_empty (Str s) = (s = [])"
| "is_empty _ = False"

text \<open>\<^verbatim>\<open>rule.errorMessage || dflt\<close>: the empty string is falsy.\<close>

definition message_or :: "string option \<Rightarrow> string \<Rightarrow> string" where
  "message_or m dflt = (case m of None \<Rightarrow> dflt | Some s \<Rightarrow> if s = [] then dflt else s)"

text \<open>The four blocks after the two checks of emptiness, each returning its error or going on.\<close>

definition minLength_check :: "jsval \<Rightarrow> ValidationRule \<Rightarrow> ValidationError option" where
  "minLength_check v r =
     (case v of
        Str s \<Rightarrow>
          (case minLength r of
             Some m \<Rightarrow>
               if int (length s) < m
               then Some \<lparr>err_field = field r,
                          message = message_or (errorMessage r)
                            (field r @ '' must be at least '' @ show_int m @
                             '' characters (got '' @ show_nat (length s) @ '')''),
                          err_value = Some v,
                          rule = Some ''minLength''\<rparr>
               else None
           | None \<Rightarrow> None)
      | _ \<Rightarrow> None)"

definition maxLength_check :: "jsval \<Rightarrow> ValidationRule \<Rightarrow> ValidationError option" where
  "maxLength_check v r =
     (case v of
        Str s \<Rightarrow>
          (case maxLength r of
             Some m \<Rightarrow>
               if int (length s) > m
               then Some \<lparr>err_field = field r,
                          message = message_or (errorMessage r)
                            (field r @ '' must be at most '' @ show_int m @
                             '' characters (got '' @ show_nat (length s) @ '')''),
                          err_value = Some v,
                          rule = Some ''maxLength''\<rparr>
               else None
           | None \<Rightarrow> None)
      | _ \<Rightarrow> None)"

definition pattern_check :: "jsval \<Rightarrow> ValidationRule \<Rightarrow> ValidationError option" where
  "pattern_check v r =
     (case pattern r of
        Some test \<Rightarrow>
          (case v of
             Str s \<Rightarrow>
               if \<not> test s
               then Some \<lparr>err_field = field r,
                          message = message_or (errorMessage r)
                            (field r @ '' does not match required pattern''),
                          err_value = Some v,
                          rule = Some ''pattern''\<rparr>
               else None
           | _ \<Rightarrow> None)
      | None \<Rightarrow> None)"

definition custom_check :: "jsval \<Rightarrow> ValidationRule \<Rightarrow> ValidationError option" where
  "custom_check v r =
     (case customValidator r of
        Some validator \<Rightarrow>
          if \<not> validator v
          then Some \<lparr>err_field = field r,
                     message = message_or (errorMessage r)
                       (field r @ '' failed custom validation''),
                     err_value = Some v,
                     rule = Some ''custom''\<rparr>
          else None
      | None \<Rightarrow> None)"

text \<open>Blocks in sequence: the first one that returns an error ends the function.\<close>

fun first_error :: "ValidationError option list \<Rightarrow> ValidationError option" where
  "first_error [] = None"
| "first_error (Some e # _) = Some e"
| "first_error (None # cs) = first_error cs"

definition validateField :: "jsval \<Rightarrow> ValidationRule \<Rightarrow> ValidationError option" where
  "validateField v r =
     (if required r = Some True \<and> is_empty v
      then Some \<lparr>err_field = field r,
                 message = message_or (errorMessage r) (field r @ '' is required''),
                 err_value = Some v,
                 rule = Some ''required''\<rparr>
      else if required r \<noteq> Some True \<and> is_empty v
      then None
      else first_error
             [minLength_check v r, maxLength_check v r, pattern_check v r, custom_check v r])"

section \<open>validateQuizQuestion\<close>

text \<open>\<^verbatim>\<open>if (error) errors.push(error)\<close>: what one call of \<open>validateField\<close> adds.\<close>

fun pushed :: "ValidationError option \<Rightarrow> ValidationError list" where
  "pushed None = []"
| "pushed (Some e) = [e]"

text \<open>A rule given as an object literal with some of the properties.\<close>

definition builtin_rule :: "string \<Rightarrow> bool \<Rightarrow> int option \<Rightarrow> int option \<Rightarrow> ValidationRule" where
  "builtin_rule f req mn mx =
     \<lparr>field = f, minLength = mn, maxLength = mx, required = Some req,
      pattern = None, customValidator = None, errorMessage = None\<rparr>"

text \<open>\<^verbatim>\<open>question[rule.field]\<close>\<close>

fun opt_js :: "str_or_num option \<Rightarrow> jsval" where
  "opt_js None = Undefined"
| "opt_js (Some x) = js_of x"

fun opt_str :: "string option \<Rightarrow> jsval" where
  "opt_str None = Undefined"
| "opt_str (Some s) = Str s"

definition get_prop :: "QuizQuestion \<Rightarrow> string \<Rightarrow> jsval" where
  "get_prop q k =
     (if k = ''id'' then opt_js (qid q)
      else if k = ''question'' then Str (question q)
      else if k = ''options'' then
        (case options q of None \<Rightarrow> Undefined | Some os \<Rightarrow> Arr (map Str os))
      else if k = ''correctAnswer'' then opt_js (correctAnswer q)
      else if k = ''explanation'' then opt_str (explanation q)
      else if k = ''category'' then opt_str (category q)
      else if k = ''difficulty'' then opt_js (difficulty q)
      else extra q k)"

text \<open>The errors pushed for the question text.\<close>

definition question_errors :: "QuizQuestion \<Rightarrow> RequiredOptions \<Rightarrow> ValidationError list" where
  "question_errors q opts =
     pushed (validateField (Str (question q))
       (builtin_rule ''question'' True
          (Some (questionMinLength' opts)) (Some (questionMaxLength' opts))))"

text \<open>The errors pushed inside \<^verbatim>\<open>if (question.options)\<close>; an array is truthy, also when empty.\<close>

definition option_error :: "RequiredOptions \<Rightarrow> nat \<times> string \<Rightarrow> ValidationError list" where
  "option_error opts = (\<lambda>(index, option).
     pushed (validateField (Str option)
       (builtin_rule (''options['' @ show_nat index @ '']'') True
          (Some (optionMinLength' opts)) (Some (optionMaxLength' opts)))))"

definition options_errors :: "QuizQuestion \<Rightarrow> RequiredOptions \<Rightarrow> ValidationError list" where
  "options_errors q opts =
     (case options q of
        None \<Rightarrow> []
      | Some os \<Rightarrow>
          (if int (length os) < minOptions' opts
           then [\<lparr>err_field = ''options'',
                   message = ''At least '' @ show_int (minOptions' opts) @
                     '' options required (got '' @ show_nat (length os) @ '')'',
                   err_value = Some (Num (of_nat (length os))),
                   rule = Some ''minOptions''\<rparr>]
           else []) @
          (if int (length os) > maxOptions' opts
           then [\<lparr>err_field = ''options'',
                   message = ''At most '' @ show_int (maxOptions' opts) @
                     '' options allowed (got '' @ show_nat (length os) @ '')'',
                   err_value = Some (Num (of_nat (length os))),
                   rule = Some ''maxOptions''\<rparr>]
           else []) @
          concat (map (option_error opts) (enumerate 0 os)))"

text \<open>The warning pushed when the set of the options is smaller than their array.\<close>

definition options_warnings :: "QuizQuestion \<Rightarrow> ValidationError list" where
  "options_warnings q =
     (case options q of
        None \<Rightarrow> []
      | Some os \<Rightarrow>
          if card (set os) \<noteq> length os
          then [\<lparr>err_field = ''options'',
                  message = ''Duplicate options detected'',
                  err_value = None,
                  rule = Some ''duplicates''\<rparr>]
          else [])"

text \<open>\<^verbatim>\<open>opts.requireExplanation || question.explanation\<close>: a non-empty string is truthy.\<close>

fun truthy_str :: "string option \<Rightarrow> bool" where
  "truthy_str None = False"
| "truthy_str (Some s) = (s \<noteq> [])"

definition explanation_errors :: "QuizQuestion \<Rightarrow> RequiredOptions \<Rightarrow> ValidationError list" where
  "explanation_errors q opts =
     (if requireExplanation' opts \<or> truthy_str (explanation q)
      then pushed (validateField (opt_str (explanation q))
             (builtin_rule ''explanation'' (requireExplanation' opts)
                (Some (explanationMinLength' opts)) (Some (explanationMaxLength' opts))))
      else [])"

definition category_errors :: "QuizQuestion \<Rightarrow> RequiredOptions \<Rightarrow> ValidationError list" where
  "category_errors q opts =
     (if requireCategory' opts
      then pushed (validateField (opt_str (category q)) (builtin_rule ''category'' True None None))
      else [])"

definition difficulty_errors :: "QuizQuestion \<Rightarrow> RequiredOptions \<Rightarrow> ValidationError list" where
  "difficulty_errors q opts =
     (if requireDifficulty' opts
      then pushed (validateField (opt_js (difficulty q)) (builtin_rule ''difficulty'' True None None))
      else [])"

text \<open>The loop over \<^verbatim>\<open>options.customRules\<close>.\<close>

definition custom_errors :: "QuizQuestion \<Rightarrow> QuizValidationOptions \<Rightarrow> ValidationError list" where
  "custom_errors q options' =
     (case customRules options' of
        None \<Rightarrow> []
      | Some rules \<Rightarrow> concat (map (\<lambda>r. pushed (validateField (get_prop q (field r)) r)) rules))"

definition totalChecks :: "QuizQuestion \<Rightarrow> QuizValidationOptions \<Rightarrow> int" where
  "totalChecks q options' =
     (let opts = spread DEFAULT_OPTIONS options'
      in 4 +
         (case options q of None \<Rightarrow> 0 | Some os \<Rightarrow> int (length os)) +
         (if requireExplanation' opts then 1 else 0) +
         (if requireCategory' opts then 1 else 0) +
         (if requireDifficulty' opts then 1 else 0) +
         (case customRules options' of None \<Rightarrow> 0 | Some rules \<Rightarrow> int (length rules)))"

definition validateQuizQuestion :: "QuizQuestion \<Rightarrow> QuizValidationOptions \<Rightarrow> ValidationResult" where
  "validateQuizQuestion q options' =
     (let opts = spread DEFAULT_OPTIONS options';
          errs = question_errors q opts @ options_errors q opts @ explanation_errors q opts @
                 category_errors q opts @ difficulty_errors q opts @ custom_errors q options';
          warns = options_warnings q;
          failedChecks = int (length errs);
          sc = max 0 (Math_round
                 (js_mul (js_div (of_int (totalChecks q options' - failedChecks))
                                 (of_int (totalChecks q options'))) 100))
      in \<lparr>valid = (length errs = 0), errors = errs, warnings = warns, score = sc\<rparr>)"

section \<open>validateQuizSet\<close>

definition validateQuizSet :: "QuizQuestion list \<Rightarrow> QuizValidationOptions \<Rightarrow> QuizSetResult" where
  "validateQuizSet questions options' =
     (let rs = map (\<lambda>q. validateQuizQuestion q options') questions;
          npassed = length (filter (\<lambda>r. valid r) rs);
          nfailed = length (filter (\<lambda>r. \<not> valid r) rs);
          avg = js_div (of_int (foldl (\<lambda>sum r. sum + score r) 0 rs))
                       (of_int (max 1 (int (length rs))))
      in \<lparr>set_valid = (nfailed = 0),
          results = rs,
          summary = \<lparr>total = length questions, passed = npassed, failed = nfailed,
                     averageScore = Math_round avg\<rparr>\<rparr>)"

section \<open>The formulas of the specification\<close>

text \<open>
  The scoring formula in the specification's words, over the counts it names; the
  operators are those of the program (\<open>js_div\<close>, \<open>js_mul\<close>, \<open>Math_round\<close>).
\<close>

definition spec_totalChecks :: "nat \<Rightarrow> bool \<Rightarrow> bool \<Rightarrow> bool \<Rightarrow> nat \<Rightarrow> int" where
  "spec_totalChecks optionCount reqExplanation reqCategory reqDifficulty customRuleCount =
     4 + int optionCount + (if reqExplanation then 1 else 0) + (if reqCategory then 1 else 0) +
     (if reqDifficulty then 1 else 0) + int customRuleCount"

definition spec_score :: "int \<Rightarrow> int \<Rightarrow> int" where
  "spec_score total_checks failed_checks =
     max 0 (Math_round (js_mul (js_div (of_int (total_checks - failed_checks))
                                       (of_int total_checks)) 100))"

definition spec_averageScore :: "int list \<Rightarrow> int" where
  "spec_averageScore scores =
     Math_round (js_div (of_int (sum_list scores)) (of_int (max 1 (int (length scores)))))"

text \<open>
  The order of precedence in the specification's words. A check fails when the rule sets
  it and the value violates it; the two checks of length and the pattern apply to strings
  only. The stage of requiredness settles an absent value: an error when the rule is
  required, no error otherwise.
\<close>

definition fails_minLength :: "jsval \<Rightarrow> ValidationRule \<Rightarrow> bool" where
  "fails_minLength v r =
     (case v of
        Str s \<Rightarrow> (case minLength r of Some m \<Rightarrow> int (length s) < m | None \<Rightarrow> False)
      | _ \<Rightarrow> False)"

definition fails_maxLength :: "jsval \<Rightarrow> ValidationRule \<Rightarrow> bool" where
  "fails_maxLength v r =
     (case v of
        Str s \<Rightarrow> (case maxLength r of Some m \<Rightarrow> int (length s) > m | None \<Rightarrow> False)
      | _ \<Rightarrow> False)"

definition fails_pattern :: "jsval \<Rightarrow> ValidationRule \<Rightarrow> bool" where
  "fails_pattern v r =
     (case v of
        Str s \<Rightarrow> (case pattern r of Some test \<Rightarrow> \<not> test s | None \<Rightarrow> False)
      | _ \<Rightarrow> False)"

definition fails_custom :: "jsval \<Rightarrow> ValidationRule \<Rightarrow> bool" where
  "fails_custom v r =
     (case customValidator r of Some validator \<Rightarrow> \<not> validator v | None \<Rightarrow> False)"

definition spec_precedence :: "jsval \<Rightarrow> ValidationRule \<Rightarrow> string option" where
  "spec_precedence v r =
     (if is_empty v then (if required r = Some True then Some ''required'' else None)
      else if fails_minLength v r then Some ''minLength''
      else if fails_maxLength v r then Some ''maxLength''
      else if fails_pattern v r then Some ''pattern''
      else if fails_custom v r then Some ''custom''
      else None)"

text \<open>The kind of the error that a call returned, \<open>None\<close> for \<^verbatim>\<open>null\<close>.\<close>

definition error_kind :: "ValidationError option \<Rightarrow> string option" where
  "error_kind res = (case res of None \<Rightarrow> None | Some e \<Rightarrow> rule e)"

text \<open>\<^verbatim>\<open>typeof value === 'string'\<close>\<close>

fun is_string :: "jsval \<Rightarrow> bool" where
  "is_string (Str s) = True"
| "is_string _ = False"

section \<open>Example inputs\<close>

text \<open>A question given as \<^verbatim>\<open>{ question: t, options: os }\<close>.\<close>

definition quiz :: "string \<Rightarrow> string list option \<Rightarrow> QuizQuestion" where
  "quiz t os =
     \<lparr>qid = None, question = t, options = os, correctAnswer = None, explanation = None,
      category = None, difficulty = None, extra = (\<lambda>_. Undefined)\<rparr>"

text \<open>A rule given as \<^verbatim>\<open>{ field: f }\<close>.\<close>

definition rule_for :: "string \<Rightarrow> ValidationRule" where
  "rule_for f =
     \<lparr>field = f, minLength = None, maxLength = None, required = None,
      pattern = None, customValidator = None, errorMessage = None\<rparr>"

definition q_duplicates :: QuizQuestion where
  "q_duplicates = quiz ''Test question?'' (Some [''Same'', ''Different'', ''Same''])"

definition q_valid :: QuizQuestion where
  "q_valid = quiz ''Valid question?'' (Some [''A'', ''B''])"

definition q_blank :: QuizQuestion where
  "q_blank = quiz [] (Some [''C''])"

text \<open>Rules of the test suite, and a rule whose message is the empty string.\<close>

definition rule_min5 :: ValidationRule where
  "rule_min5 = (rule_for ''name'')\<lparr>minLength := Some 5\<rparr>"

definition rule_max5 :: ValidationRule where
  "rule_max5 = (rule_for ''name'')\<lparr>maxLength := Some 5\<rparr>"

definition rule_blank_message :: ValidationRule where
  "rule_blank_message = (rule_for ''name'')\<lparr>required := Some True, errorMessage := Some []\<rparr>"

text \<open>A rule that sets every check: \<^verbatim>\<open>(value) => value === 4\<close> with bounds and a pattern.\<close>

definition is_four :: "jsval \<Rightarrow> bool" where
  "is_four v = (v = Num 4)"

definition rule_mixed :: ValidationRule where
  "rule_mixed = (rule_for ''name'')\<lparr>minLength := Some 5, maxLength := Some 1,
     pattern := Some (\<lambda>s. False), customValidator := Some is_four\<rparr>"

text \<open>The example of the specification for a required explanation.\<close>

definition q_short :: QuizQuestion where
  "q_short = quiz ''Q?'' (Some [''A'', ''B''])"

definition opts_require_explanation :: QuizValidationOptions where
  "opts_require_explanation = no_options\<lparr>requireExplanation := Some True\<rparr>"

text \<open>A custom rule on the field \<open>correctAnswer\<close>, and the custom rule of the test suite.\<close>

definition rule_answer_required :: ValidationRule where
  "rule_answer_required = (rule_for ''correctAnswer'')\<lparr>required := Some True\<rparr>"

definition opts_answer_rule :: QuizValidationOptions where
  "opts_answer_rule = no_options\<lparr>customRules := Some [rule_answer_required]\<rparr>"

definition at_least_10 :: "jsval \<Rightarrow> bool" where
  "at_least_10 v = (case v of Num n \<Rightarrow> 10 \<le> n | _ \<Rightarrow> False)"

definition rule_points :: ValidationRule where
  "rule_points = (rule_for ''points'')\<lparr>customValidator := Some at_least_10,
     errorMessage := Some ''Points must be at least 10''\<rparr>"

definition opts_points_rule :: QuizValidationOptions where
  "opts_points_rule = no_options\<lparr>customRules := Some [rule_points]\<rparr>"

definition q_points :: QuizQuestion where
  "q_points = (quiz ''Test question?'' (Some [''A'', ''B'']))
     \<lparr>extra := (\<lambda>k. if k = ''points'' then Num 5 else Undefined)\<rparr>"

text \<open>A question with 196 options, all of them the string \<open>A\<close>.\<close>

definition q_many_options :: QuizQuestion where
  "q_many_options = quiz ''Test question?'' (Some (replicate 196 ''A''))"

section \<open>Properties of the number model\<close>

lemma pow2_powi: "pow2 k = 2 powi k"
  by (simp add: pow2_def power_int_def inverse_eq_divide power_one_over)

lemma pow2_pos: "0 < pow2 k"
  by (simp add: pow2_powi)

lemma pow2_diff: "pow2 (a - b) = pow2 a / pow2 b"
  by (simp add: pow2_powi power_int_diff)

text \<open>\<open>ilog2\<close> finds the binary exponent: \<open>x\<close> lies between its power of two and the next.\<close>

lemma ilog2_lower:
  assumes "0 < x"
  shows "pow2 (ilog2 x) \<le> x"
proof -
  obtain p q where pq: "quotient_of x = (p, q)" by (cases "quotient_of x")
  have q: "0 < q" using pq quotient_of_denom_pos by blast
  have x: "x = of_int p / of_int q" using pq quotient_of_div by blast
  have p: "0 < p" using assms q x by (simp add: zero_less_divide_iff)
  let ?k = "bitlen p - bitlen q"
  have bp: "2 ^ nat (bitlen p - 1) \<le> p" using bitlen_bounds[OF p] by simp
  have bq: "q < 2 ^ nat (bitlen q)" using bitlen_bounds[OF q] by simp
  have bp1: "1 \<le> bitlen p" using p bitlen_eq_zero_iff[of p] bitlen_nonneg[of p] by linarith
  have bq0: "0 \<le> bitlen q" by (rule bitlen_nonneg)
  have "pow2 (?k - 1) \<le> x"
  proof -
    have "pow2 (?k - 1) = pow2 (bitlen p - 1) / pow2 (bitlen q)"
      using pow2_diff[of "bitlen p - 1" "bitlen q"] by (simp add: algebra_simps)
    also have "\<dots> = 2 ^ nat (bitlen p - 1) / 2 ^ nat (bitlen q)"
      using bp1 bq0 by (simp add: pow2_def)
    also have "\<dots> \<le> of_int p / of_int q"
    proof -
      have a: "(2::rat) ^ nat (bitlen p - 1) \<le> of_int p"
        using bp by (metis of_int_le_iff of_int_numeral of_int_power)
      have b: "(of_int q :: rat) \<le> 2 ^ nat (bitlen q)"
        using bq by (metis less_imp_le of_int_le_iff of_int_numeral of_int_power)
      have c: "(0::rat) < of_int q" using q by simp
      have d: "(0::rat) \<le> of_int p" using p by simp
      show ?thesis using frac_le[OF d a c b] .
    qed
    finally show ?thesis using x by simp
  qed
  then show ?thesis
    by (simp add: ilog2_def pq Let_def)
qed

lemma ilog2_upper:
  assumes "0 < x"
  shows "x < pow2 (ilog2 x + 1)"
proof -
  obtain p q where pq: "quotient_of x = (p, q)" by (cases "quotient_of x")
  have q: "0 < q" using pq quotient_of_denom_pos by blast
  have x: "x = of_int p / of_int q" using pq quotient_of_div by blast
  have p: "0 < p" using assms q x by (simp add: zero_less_divide_iff)
  let ?k = "bitlen p - bitlen q"
  have bp: "p < 2 ^ nat (bitlen p)" using bitlen_bounds[OF p] by simp
  have bq: "2 ^ nat (bitlen q - 1) \<le> q" using bitlen_bounds[OF q] by simp
  have bq1: "1 \<le> bitlen q" using q bitlen_eq_zero_iff[of q] bitlen_nonneg[of q] by linarith
  have bp0: "0 \<le> bitlen p" by (rule bitlen_nonneg)
  have "x < pow2 (?k + 1)"
  proof -
    have a: "(of_int p :: rat) < 2 ^ nat (bitlen p)"
      using bp by (metis of_int_less_iff of_int_numeral of_int_power)
    have b: "(2::rat) ^ nat (bitlen q - 1) \<le> of_int q"
      using bq by (metis of_int_le_iff of_int_numeral of_int_power)
    have c: "(0::rat) < 2 ^ nat (bitlen q - 1)" by simp
    have d: "(0::rat) \<le> of_int p" using p by simp
    have "of_int p / of_int q \<le> (of_int p :: rat) / 2 ^ nat (bitlen q - 1)"
      using frac_le[OF d order_refl c b] .
    also have "\<dots> < 2 ^ nat (bitlen p) / 2 ^ nat (bitlen q - 1)"
      using a c by (simp add: divide_strict_right_mono)
    also have "\<dots> = pow2 (bitlen p) / pow2 (bitlen q - 1)"
      using bq1 bp0 by (simp add: pow2_def)
    also have "\<dots> = pow2 (?k + 1)"
      using pow2_diff[of "bitlen p" "bitlen q - 1"] by (simp add: algebra_simps)
    finally show ?thesis using x by simp
  qed
  moreover have "\<not> pow2 ?k \<le> x \<Longrightarrow> x < pow2 ?k" by simp
  ultimately show ?thesis
    by (simp add: ilog2_def pq Let_def)
qed

lemma round_half_even_upper: "of_int (round_half_even z) \<le> z + 1 / 2"
  unfolding round_half_even_def Let_def
  by (auto simp: ; linarith)

lemma round_half_even_nonneg: "0 \<le> z \<Longrightarrow> 0 \<le> round_half_even z"
  unfolding round_half_even_def Let_def by auto

text \<open>Rounding to binary64 has a relative error of at most \<open>2\<^sup>-\<^sup>5\<^sup>3\<close>.\<close>

lemma fl_upper:
  assumes "0 < x"
  shows "fl x \<le> x * (1 + 1 / 2 ^ 53)"
proof -
  define e where "e = ilog2 x - 52"
  have s: "0 < pow2 e" by (rule pow2_pos)
  have "pow2 e = pow2 (ilog2 x) / pow2 52" unfolding e_def by (rule pow2_diff)
  also have "\<dots> \<le> x / pow2 52"
    using ilog2_lower[OF assms] pow2_pos[of 52] by (simp add: divide_right_mono)
  finally have le: "pow2 e \<le> x / 2 ^ 52" by (simp add: pow2_def)
  have "fl x = of_int (round_half_even (x / pow2 e)) * pow2 e"
    using assms by (simp add: fl_def e_def Let_def)
  also have "\<dots> \<le> (x / pow2 e + 1 / 2) * pow2 e"
    using round_half_even_upper[of "x / pow2 e"] s by (simp add: mult_right_mono)
  also have "\<dots> = x + pow2 e / 2" using s by (simp add: field_simps)
  also have "\<dots> \<le> x + (x / 2 ^ 52) / 2" using le by simp
  also have "\<dots> = x * (1 + 1 / 2 ^ 53)" by (simp add: field_simps)
  finally show ?thesis .
qed

lemma fl_nonpos:
  assumes "x \<le> 0"
  shows "fl x \<le> 0"
proof (cases "x = 0")
  case True
  then show ?thesis by (simp add: fl_def)
next
  case False
  define e where "e = ilog2 \<bar>x\<bar> - 52"
  have "0 \<le> \<bar>x\<bar> / pow2 e" using pow2_pos[of e] by simp
  then have r: "0 \<le> round_half_even (\<bar>x\<bar> / pow2 e)" by (rule round_half_even_nonneg)
  have "fl x = - (of_int (round_half_even (\<bar>x\<bar> / pow2 e)) * pow2 e)"
    using False assms by (simp add: fl_def e_def Let_def)
  moreover have "0 \<le> of_int (round_half_even (\<bar>x\<bar> / pow2 e)) * pow2 e"
    using r pow2_pos[of e] by simp
  ultimately show ?thesis by simp
qed

lemma fl_1: "fl 1 = 1"
  by code_simp

lemma fl_100: "fl 100 = 100"
  by code_simp

lemma fl_0: "fl 0 = 0"
  by (simp add: fl_def)

lemma Math_round_0: "Math_round 0 = 0"
  by code_simp

lemma Math_round_100: "Math_round 100 = 100"
  by code_simp

lemma Math_round_less: "x + 1 / 2 < of_int n \<Longrightarrow> Math_round x < n"
  by (simp add: Math_round_def floor_less_iff)

text \<open>The two roundings of \<^verbatim>\<open>(a / b) * 100\<close> together, for a quotient of at most \<open>c\<close>.\<close>

lemma fl_fl_bound:
  assumes "q \<le> c" and "0 < c"
  shows "fl (fl q * 100) \<le> 100 * c * (1 + 1 / 2 ^ 53) * (1 + 1 / 2 ^ 53)"
proof -
  let ?u = "1 + 1 / 2 ^ 53 :: rat"
  have rhs: "0 \<le> 100 * c * ?u * ?u" using assms(2) by simp
  show ?thesis
  proof (cases "fl q * 100 \<le> 0")
    case True
    then have "fl (fl q * 100) \<le> 0" by (rule fl_nonpos)
    with rhs show ?thesis by linarith
  next
    case False
    then have y: "0 < fl q * 100" by simp
    then have "0 < fl q" by simp
    then have qpos: "0 < q" using fl_nonpos[of q] by (cases "q \<le> 0") auto
    have "fl q \<le> q * ?u" using fl_upper[OF qpos] .
    also have "\<dots> \<le> c * ?u" using assms(1) by (simp add: mult_right_mono)
    finally have a: "fl q * 100 \<le> 100 * c * ?u" by simp
    have "fl (fl q * 100) \<le> fl q * 100 * ?u" using fl_upper[OF y] .
    also have "\<dots> \<le> 100 * c * ?u * ?u" using a by (simp add: mult_right_mono)
    finally show ?thesis .
  qed
qed

section \<open>The score of a question\<close>

lemma totalChecks_ge_4: "4 \<le> totalChecks q opts"
  by (simp add: totalChecks_def Let_def split: option.splits)

lemma score_spec_score:
  "score (validateQuizQuestion q opts) =
     spec_score (totalChecks q opts) (int (length (errors (validateQuizQuestion q opts))))"
  by (simp add: validateQuizQuestion_def Let_def spec_score_def)

lemma spec_score_nonneg: "0 \<le> spec_score t f"
  by (simp add: spec_score_def)

lemma spec_score_le_100:
  assumes "0 < t" and "0 \<le> f"
  shows "spec_score t f \<le> 100"
proof -
  have "of_int (t - f) / of_int t \<le> (1::rat)" using assms by simp
  from fl_fl_bound[OF this] have
    "fl (fl (of_int (t - f) / of_int t) * 100) \<le> 100 * 1 * (1 + 1 / 2 ^ 53) * (1 + 1 / 2 ^ 53)"
    by simp
  also have "\<dots> < 101 - 1 / 2" by simp
  finally have "Math_round (fl (fl (of_int (t - f) / of_int t) * 100)) < 101"
    using Math_round_less[of _ 101] by simp
  then show ?thesis by (simp add: spec_score_def js_mul_def js_div_def)
qed

lemma spec_score_lt_100:
  assumes "0 < t" and "t < 200" and "1 \<le> f"
  shows "spec_score t f < 100"
proof -
  have "of_int (t - f) * (199::rat) \<le> 198 * of_int t"
  proof -
    have "(t - f) * 199 \<le> 198 * t" using assms by simp
    then have "(of_int ((t - f) * 199) :: rat) \<le> of_int (198 * t)" by (simp only: of_int_le_iff)
    then show ?thesis by simp
  qed
  then have "of_int (t - f) / of_int t \<le> (198 / 199 :: rat)"
    using assms(1) by (simp add: field_simps)
  from fl_fl_bound[OF this] have
    "fl (fl (of_int (t - f) / of_int t) * 100) \<le>
       100 * (198 / 199) * (1 + 1 / 2 ^ 53) * (1 + 1 / 2 ^ 53)"
    by simp
  also have "\<dots> < 100 - 1 / 2" by simp
  finally have "Math_round (fl (fl (of_int (t - f) / of_int t) * 100)) < 100"
    using Math_round_less[of _ 100] by simp
  then show ?thesis by (simp add: spec_score_def js_mul_def js_div_def)
qed

lemma spec_score_no_failure:
  assumes "0 < t"
  shows "spec_score t 0 = 100"
  using assms by (simp add: spec_score_def js_mul_def js_div_def fl_1 fl_100 Math_round_100)

text \<open>
  Claim C1. For every question and every configuration, the score that
  \<open>validateQuizQuestion\<close> returns is the value of the formula: the total of checks is 4
  plus the number of options (0 without the property), plus 1 for each of
  \<open>requireExplanation\<close>, \<open>requireCategory\<close> and \<open>requireDifficulty\<close> that is on, plus the
  number of custom rules; the failed checks are the length of the errors; the score is
  the maximum of 0 and the rounded percentage of the checks that did not fail.
\<close>

theorem score_formula:
  "score (validateQuizQuestion q opts) =
     spec_score
       (spec_totalChecks
          (case options q of None \<Rightarrow> 0 | Some os \<Rightarrow> length os)
          (requireExplanation opts = Some True)
          (requireCategory opts = Some True)
          (requireDifficulty opts = Some True)
          (case customRules opts of None \<Rightarrow> 0 | Some rs \<Rightarrow> length rs))
       (int (length (errors (validateQuizQuestion q opts))))"
proof -
  have t: "totalChecks q opts =
      spec_totalChecks
          (case options q of None \<Rightarrow> 0 | Some os \<Rightarrow> length os)
          (requireExplanation opts = Some True)
          (requireCategory opts = Some True)
          (requireDifficulty opts = Some True)
          (case customRules opts of None \<Rightarrow> 0 | Some rs \<Rightarrow> length rs)"
    by (simp add: totalChecks_def spec_totalChecks_def Let_def spread_def DEFAULT_OPTIONS_def
          override_def split: option.splits)
  show ?thesis
    unfolding t[symmetric] by (simp add: validateQuizQuestion_def Let_def spec_score_def)
qed

text \<open>
  The operators of the formula are those of binary64: 17 failed checks of 40 give 57,
  since \<^verbatim>\<open>(23 / 40) * 100\<close> is \<^verbatim>\<open>57.49999999999999\<close>, where the exact
  percentage 57.5 would round to 58.
\<close>

lemma spec_score_binary64: "spec_score 40 17 = 57"
  by code_simp

lemma option_error_ok:
  "s \<noteq> [] \<Longrightarrow> optionMinLength' o' \<le> int (length s) \<Longrightarrow> int (length s) \<le> optionMaxLength' o'
    \<Longrightarrow> option_error o' (i, s) = []"
  by (simp add: option_error_def validateField_def builtin_rule_def minLength_check_def
        maxLength_check_def pattern_check_def custom_check_def)

lemma option_errors_ok:
  "\<forall>s \<in> set os. s \<noteq> [] \<and> optionMinLength' o' \<le> int (length s) \<and>
       int (length s) \<le> optionMaxLength' o'
    \<Longrightarrow> concat (map (option_error o') (enumerate n os)) = []"
  by (induction os arbitrary: n) (simp_all add: option_error_ok)

lemma q_many_options_errors:
  "errors (validateQuizQuestion q_many_options no_options) =
     [\<lparr>err_field = ''options'', message = ''At most 10 options allowed (got 196)'',
       err_value = Some (Num 196), rule = Some ''maxOptions''\<rparr>]"
proof -
  let ?o = "spread DEFAULT_OPTIONS no_options"
  have 1: "question_errors q_many_options ?o = []" by code_simp
  have 2: "concat (map (option_error ?o) (enumerate 0 (replicate 196 ''A''))) = []"
    by (rule option_errors_ok) (simp add: spread_def DEFAULT_OPTIONS_def no_options_def override_def)
  have s: "show_nat 196 = ''196''" "show_int 10 = ''10''" by code_simp+
  have 3: "options_errors q_many_options ?o =
     [\<lparr>err_field = ''options'', message = ''At most 10 options allowed (got 196)'',
       err_value = Some (Num 196), rule = Some ''maxOptions''\<rparr>]"
    unfolding options_errors_def
    by (simp add: q_many_options_def quiz_def 2 s)
       (simp add: spread_def DEFAULT_OPTIONS_def no_options_def override_def s)
  have 4: "explanation_errors q_many_options ?o = []" "category_errors q_many_options ?o = []"
    "difficulty_errors q_many_options ?o = []" "custom_errors q_many_options no_options = []"
    by code_simp+
  show ?thesis
    by (simp add: validateQuizQuestion_def Let_def 1 3 4)
qed

text \<open>
  Against claim C2 as it is stated: the question with 196 well-formed options and the
  default configuration has 200 checks and one error (more than 10 options), and
  \<^verbatim>\<open>Math.round(99.5)\<close> is 100.
\<close>

theorem score_100_counterexample:
  "score (validateQuizQuestion q_many_options no_options) = 100 \<and>
   length (errors (validateQuizQuestion q_many_options no_options)) = 1"
proof -
  have t: "totalChecks q_many_options no_options = 200"
    by (simp add: totalChecks_def Let_def q_many_options_def quiz_def no_options_def
          spread_def DEFAULT_OPTIONS_def override_def)
  have s: "spec_score 200 1 = 100" by code_simp
  show ?thesis
    unfolding score_spec_score t q_many_options_errors using s by simp
qed

text \<open>
  Claim C2, amended. The score is an integer between 0 and 100, and it is 100 when there
  is no error. With fewer than 200 checks the converse holds too: the score is 100 only
  when there is no error.
\<close>

theorem score_bounds:
  "0 \<le> score (validateQuizQuestion q opts) \<and>
   score (validateQuizQuestion q opts) \<le> 100 \<and>
   (length (errors (validateQuizQuestion q opts)) = 0 \<longrightarrow>
      score (validateQuizQuestion q opts) = 100) \<and>
   (totalChecks q opts < 200 \<longrightarrow>
      (score (validateQuizQuestion q opts) = 100) =
        (length (errors (validateQuizQuestion q opts)) = 0))"
proof -
  let ?f = "int (length (errors (validateQuizQuestion q opts)))"
  have t: "0 < totalChecks q opts" using totalChecks_ge_4[of q opts] by simp
  have a: "0 \<le> score (validateQuizQuestion q opts)"
    unfolding score_spec_score by (rule spec_score_nonneg)
  have b: "score (validateQuizQuestion q opts) \<le> 100"
    unfolding score_spec_score using t by (simp add: spec_score_le_100)
  have c: "length (errors (validateQuizQuestion q opts)) = 0 \<Longrightarrow>
      score (validateQuizQuestion q opts) = 100"
    using spec_score_no_failure[OF t] score_spec_score[of q opts] by simp
  have d: "totalChecks q opts < 200 \<Longrightarrow> length (errors (validateQuizQuestion q opts)) \<noteq> 0 \<Longrightarrow>
      score (validateQuizQuestion q opts) < 100"
  proof -
    assume lt: "totalChecks q opts < 200"
      and ne: "length (errors (validateQuizQuestion q opts)) \<noteq> 0"
    from ne have "0 < length (errors (validateQuizQuestion q opts))"
      by (rule neq0_conv[THEN iffD1])
    then have "1 \<le> ?f" by linarith
    from spec_score_lt_100[OF t lt this] show ?thesis by (simp only: score_spec_score)
  qed
  from a b c d show ?thesis by fastforce
qed

theorem score_bounds_witness:
  "length (errors (validateQuizQuestion q_valid no_options)) = 0 \<and>
   totalChecks q_valid no_options < 200 \<and>
   score (validateQuizQuestion q_valid no_options) = 100 \<and>
   length (errors (validateQuizQuestion q_blank no_options)) = 2 \<and>
   totalChecks q_blank no_options < 200 \<and>
   score (validateQuizQuestion q_blank no_options) \<noteq> 100"
proof -
  have e: "length (errors (validateQuizQuestion q_valid no_options)) = 0" by code_simp
  have t: "totalChecks q_valid no_options < 200" by code_simp
  have e': "length (errors (validateQuizQuestion q_blank no_options)) = 2" by code_simp
  have t': "totalChecks q_blank no_options < 200" by code_simp
  from score_bounds[of q_valid no_options] score_bounds[of q_blank no_options] e t e' t'
  show ?thesis by simp
qed

section \<open>Validity, errors and warnings\<close>

lemma validateField_rule_kind:
  "validateField v r = Some e \<Longrightarrow>
     rule e \<in> {Some ''required'', Some ''minLength'', Some ''maxLength'', Some ''pattern'', Some ''custom''}"
  by (auto simp: validateField_def minLength_check_def maxLength_check_def pattern_check_def
        custom_check_def split: if_splits jsval.splits option.splits)

lemma pushed_not_duplicates:
  "e \<in> set (pushed (validateField v r)) \<Longrightarrow> rule e \<noteq> Some ''duplicates''"
  by (cases "validateField v r") (auto dest: validateField_rule_kind)

lemma errors_not_duplicates:
  assumes "e \<in> set (errors (validateQuizQuestion q opts))"
  shows "rule e \<noteq> Some ''duplicates''"
  using assms
  by (auto simp: validateQuizQuestion_def Let_def question_errors_def options_errors_def
        option_error_def explanation_errors_def category_errors_def difficulty_errors_def
        custom_errors_def
        dest: pushed_not_duplicates split: option.splits if_splits)

text \<open>
  Claim C3. The result of \<open>validateQuizQuestion\<close> is valid exactly when its list of
  errors is empty, so the warnings have no part in it. No entry of the errors has the
  kind \<open>duplicates\<close>, and a question whose options are not pairwise distinct gets a
  warning of that kind on the field \<open>options\<close>.
\<close>

theorem valid_iff_no_errors:
  "valid (validateQuizQuestion q opts) = (errors (validateQuizQuestion q opts) = []) \<and>
   (\<forall>e \<in> set (errors (validateQuizQuestion q opts)). rule e \<noteq> Some ''duplicates'') \<and>
   (\<forall>os. options q = Some os \<and> \<not> distinct os \<longrightarrow>
      (\<exists>w \<in> set (warnings (validateQuizQuestion q opts)).
         err_field w = ''options'' \<and> rule w = Some ''duplicates''))"
proof (intro conjI ballI allI impI)
  show "valid (validateQuizQuestion q opts) = (errors (validateQuizQuestion q opts) = [])"
    by (simp add: validateQuizQuestion_def Let_def)
next
  fix e assume "e \<in> set (errors (validateQuizQuestion q opts))"
  then show "rule e \<noteq> Some ''duplicates''" by (rule errors_not_duplicates)
next
  fix os assume a: "options q = Some os \<and> \<not> distinct os"
  then have "card (set os) \<noteq> length os" using card_distinct by blast
  with a show "\<exists>w \<in> set (warnings (validateQuizQuestion q opts)).
         err_field w = ''options'' \<and> rule w = Some ''duplicates''"
    by (simp add: validateQuizQuestion_def Let_def options_warnings_def)
qed

text \<open>
  The question of the test suite with the options \<open>Same\<close>, \<open>Different\<close>, \<open>Same\<close>: it is
  valid, and it has the warning.
\<close>

theorem valid_iff_no_errors_witness:
  "options q_duplicates = Some [''Same'', ''Different'', ''Same''] \<and>
   \<not> distinct [''Same'', ''Different'', ''Same''] \<and>
   valid (validateQuizQuestion q_duplicates no_options) \<and>
   (\<exists>w \<in> set (warnings (validateQuizQuestion q_duplicates no_options)).
       err_field w = ''options'' \<and> rule w = Some ''duplicates'')"
proof -
  have o: "options q_duplicates = Some [''Same'', ''Different'', ''Same'']"
    by (simp add: q_duplicates_def quiz_def)
  have d: "\<not> distinct [''Same'', ''Different'', ''Same'']" by simp
  have e: "errors (validateQuizQuestion q_duplicates no_options) = []" by code_simp
  from valid_iff_no_errors[of q_duplicates no_options] o d e show ?thesis by blast
qed

section \<open>The checks of one field\<close>

text \<open>
  Against claim C4 as it is stated: a required rule whose \<open>errorMessage\<close> is set to the
  empty string reports the default message, since \<^verbatim>\<open>rule.errorMessage || ...\<close> takes the
  empty string for a missing one.
\<close>

theorem required_message_counterexample:
  "errorMessage rule_blank_message = Some [] \<and>
   validateField (Str []) rule_blank_message =
     Some \<lparr>err_field = ''name'', message = ''name is required'', err_value = Some (Str []),
           rule = Some ''required''\<rparr>"
  by (simp add: rule_blank_message_def rule_for_def validateField_def message_or_def)

text \<open>
  Claim C4, amended. For an absent value (\<open>undefined\<close>, \<open>null\<close> or the empty string): a
  required rule gives an error of kind \<open>required\<close> on the rule's field, whose message is
  the rule's \<open>errorMessage\<close> when that is set to a non-empty string and
  \<open><field> is required\<close> otherwise; a rule that is not required gives no error, whatever
  its \<open>minLength\<close>, \<open>maxLength\<close>, \<open>pattern\<close> and \<open>customValidator\<close>.
\<close>

theorem validateField_absent:
  "v \<in> {Undefined, Null, Str []} \<Longrightarrow>
   (required r = Some True \<and> errorMessage r = Some m \<and> m \<noteq> [] \<longrightarrow>
      validateField v r =
        Some \<lparr>err_field = field r, message = m, err_value = Some v, rule = Some ''required''\<rparr>) \<and>
   (required r = Some True \<and> (errorMessage r = None \<or> errorMessage r = Some []) \<longrightarrow>
      validateField v r =
        Some \<lparr>err_field = field r, message = field r @ '' is required'', err_value = Some v,
              rule = Some ''required''\<rparr>) \<and>
   (required r \<noteq> Some True \<longrightarrow> validateField v r = None)"
  by (auto simp: validateField_def message_or_def)

theorem validateField_absent_witness:
  "validateField Undefined
     ((rule_for ''name'')\<lparr>required := Some True, errorMessage := Some ''Name is mandatory''\<rparr>) =
     Some \<lparr>err_field = ''name'', message = ''Name is mandatory'', err_value = Some Undefined,
           rule = Some ''required''\<rparr> \<and>
   validateField Null ((rule_for ''name'')\<lparr>required := Some True\<rparr>) =
     Some \<lparr>err_field = ''name'', message = ''name is required'', err_value = Some Null,
           rule = Some ''required''\<rparr> \<and>
   validateField (Str []) rule_mixed = None"
  using validateField_absent[of Undefined
        "(rule_for ''name'')\<lparr>required := Some True, errorMessage := Some ''Name is mandatory''\<rparr>"
        "''Name is mandatory''"]
    validateField_absent[of Null "(rule_for ''name'')\<lparr>required := Some True\<rparr>"]
    validateField_absent[of "Str []" rule_mixed]
  by (simp add: rule_for_def rule_mixed_def)

text \<open>
  Against claim C5 as it is stated: the empty string is shorter than 5, and a rule with
  \<open>minLength = 5\<close> that is not required returns no error for it.
\<close>

theorem length_iff_counterexample:
  "minLength rule_min5 = Some 5 \<and> int (length ('''' :: string)) < 5 \<and>
   validateField (Str '''') rule_min5 = None"
  by (simp add: rule_min5_def rule_for_def validateField_def)

text \<open>
  Claim C5, amended. For every non-empty string \<open>s\<close>: a rule with \<open>minLength = m\<close> and
  no \<open>maxLength\<close>, \<open>pattern\<close> or \<open>customValidator\<close> returns an error exactly when the length
  of \<open>s\<close> is below \<open>m\<close>, and a rule with \<open>maxLength = M\<close> and no \<open>minLength\<close>, \<open>pattern\<close> or
  \<open>customValidator\<close> returns an error exactly when the length of \<open>s\<close> is above \<open>M\<close>.
\<close>

theorem validateField_length_iff:
  "(s \<noteq> [] \<and> minLength r = Some m \<and> maxLength r = None \<and> pattern r = None \<and>
      customValidator r = None \<longrightarrow>
      (validateField (Str s) r \<noteq> None) = (int (length s) < m)) \<and>
   (s \<noteq> [] \<and> maxLength r = Some M \<and> minLength r = None \<and> pattern r = None \<and>
      customValidator r = None \<longrightarrow>
      (validateField (Str s) r \<noteq> None) = (int (length s) > M))"
  by (auto simp: validateField_def minLength_check_def maxLength_check_def pattern_check_def
        custom_check_def)

theorem validateField_length_iff_witness:
  "validateField (Str ''abc'') rule_min5 \<noteq> None \<and>
   validateField (Str ''abcdef'') rule_min5 = None \<and>
   validateField (Str ''abcdef'') rule_max5 \<noteq> None \<and>
   validateField (Str ''abc'') rule_max5 = None"
  using validateField_length_iff[of "''abc''" rule_min5 5 5]
    validateField_length_iff[of "''abcdef''" rule_min5 5 5]
    validateField_length_iff[of "''abcdef''" rule_max5 5 5]
    validateField_length_iff[of "''abc''" rule_max5 5 5]
  by (simp add: rule_min5_def rule_max5_def rule_for_def)

text \<open>
  Claim C6. \<open>validateField\<close> returns the error of the first check that fails, in the order
  required, \<open>minLength\<close>, \<open>maxLength\<close>, \<open>pattern\<close>, \<open>customValidator\<close>, whatever the later
  checks would say, and no error when none fails. For a value that is neither absent nor a
  string the result is that of the custom validator alone: no error, or one of kind
  \<open>custom\<close>.
\<close>

theorem validateField_precedence:
  "error_kind (validateField v r) = spec_precedence v r \<and>
   (\<not> is_empty v \<and> \<not> is_string v \<longrightarrow>
      validateField v r = custom_check v r \<and>
      error_kind (validateField v r) \<in> {None, Some ''custom''})"
  by (cases v)
     (auto simp: error_kind_def spec_precedence_def validateField_def minLength_check_def
        maxLength_check_def pattern_check_def custom_check_def fails_minLength_def
        fails_maxLength_def fails_pattern_def fails_custom_def split: option.splits)

theorem validateField_precedence_witness:
  "\<not> is_empty (Num 3) \<and> \<not> is_string (Num 3) \<and>
   error_kind (validateField (Num 3) rule_mixed) = Some ''custom'' \<and>
   validateField (Num 4) rule_mixed = None \<and>
   error_kind (validateField (Str ''abc'') rule_mixed) = Some ''minLength''"
proof -
  have a: "spec_precedence (Num 3) rule_mixed = Some ''custom''"
    by (simp add: spec_precedence_def fails_minLength_def fails_maxLength_def fails_pattern_def
          fails_custom_def rule_mixed_def rule_for_def is_four_def)
  have b: "custom_check (Num 4) rule_mixed = None"
    by (simp add: custom_check_def rule_mixed_def rule_for_def is_four_def)
  have c: "spec_precedence (Str ''abc'') rule_mixed = Some ''minLength''"
    by (simp add: spec_precedence_def fails_minLength_def rule_mixed_def rule_for_def)
  have n: "\<not> is_empty (Num 3)" "\<not> is_string (Num 3)" "\<not> is_empty (Num 4)" "\<not> is_string (Num 4)"
    by simp_all
  from validateField_precedence[of "Num 3" rule_mixed] a
  have 1: "error_kind (validateField (Num 3) rule_mixed) = Some ''custom''" by (simp only:)
  from validateField_precedence[of "Num 4" rule_mixed] n b
  have 2: "validateField (Num 4) rule_mixed = None" by (simp only: simp_thms)
  from validateField_precedence[of "Str ''abc''" rule_mixed] c
  have 3: "error_kind (validateField (Str ''abc'') rule_mixed) = Some ''minLength''" by (simp only:)
  from n 1 2 3 show ?thesis by (simp only: simp_thms)
qed

section \<open>Sets of questions\<close>

lemma filter_partition_length:
  "length (filter P xs) + length (filter (\<lambda>x. \<not> P x) xs) = length xs"
  by (induction xs) auto

text \<open>
  Claim C7. For \<open>N\<close> questions \<open>validateQuizSet\<close> returns \<open>N\<close> results in the order of the
  input, the result at each index being \<open>validateQuizQuestion\<close> of the question at that
  index with the same configuration; the summary's total is \<open>N\<close>, passed and failed add up
  to the total, and the set is valid exactly when failed is 0.
\<close>

theorem validateQuizSet_results_summary:
  "results (validateQuizSet qs opts) = map (\<lambda>q. validateQuizQuestion q opts) qs \<and>
   length (results (validateQuizSet qs opts)) = length qs \<and>
   (\<forall>i < length qs. results (validateQuizSet qs opts) ! i = validateQuizQuestion (qs ! i) opts) \<and>
   total (summary (validateQuizSet qs opts)) = length qs \<and>
   passed (summary (validateQuizSet qs opts)) + failed (summary (validateQuizSet qs opts)) =
     total (summary (validateQuizSet qs opts)) \<and>
   set_valid (validateQuizSet qs opts) = (failed (summary (validateQuizSet qs opts)) = 0)"
proof -
  define rs where "rs = map (\<lambda>q. validateQuizQuestion q opts) qs"
  have r: "results (validateQuizSet qs opts) = rs"
    unfolding validateQuizSet_def Let_def rs_def by simp
  have t: "total (summary (validateQuizSet qs opts)) = length qs"
    by (simp add: validateQuizSet_def Let_def)
  have p: "passed (summary (validateQuizSet qs opts)) = length (filter (\<lambda>r. valid r) rs)"
    unfolding validateQuizSet_def Let_def rs_def[symmetric] by simp
  have f: "failed (summary (validateQuizSet qs opts)) = length (filter (\<lambda>r. \<not> valid r) rs)"
    unfolding validateQuizSet_def Let_def rs_def[symmetric] by simp
  have v: "set_valid (validateQuizSet qs opts) = (length (filter (\<lambda>r. \<not> valid r) rs) = 0)"
    unfolding validateQuizSet_def Let_def rs_def[symmetric] by simp
  have l: "length rs = length qs" by (simp add: rs_def)
  have n: "\<forall>i < length qs. rs ! i = validateQuizQuestion (qs ! i) opts" by (simp add: rs_def)
  have s: "length (filter (\<lambda>r. valid r) rs) + length (filter (\<lambda>r. \<not> valid r) rs) = length qs"
    using filter_partition_length[of valid rs] l by simp
  show ?thesis
    unfolding r t p f v using l n s rs_def by simp
qed

theorem validateQuizSet_results_summary_witness:
  "(1::nat) < length [q_valid, q_blank] \<and>
   results (validateQuizSet [q_valid, q_blank] no_options) ! 1 =
     validateQuizQuestion q_blank no_options \<and>
   passed (summary (validateQuizSet [q_valid, q_blank] no_options)) +
     failed (summary (validateQuizSet [q_valid, q_blank] no_options)) = 2"
  using validateQuizSet_results_summary[of "[q_valid, q_blank]" no_options]
  by simp

lemma foldl_score_sum:
  "foldl (\<lambda>sum r. sum + score r) a rs = a + sum_list (map score rs)"
  by (induction rs arbitrary: a) auto

text \<open>
  Claim C8. For the questions \<open>qs\<close>, \<open>N\<close> of them, the average score of the summary is
  the rounded quotient of the sum of the scores of \<open>validateQuizQuestion\<close> on each
  question of \<open>qs\<close> by the maximum of 1 and \<open>N\<close>, and for the empty sequence
  \<open>validateQuizSet\<close> returns a valid set with no results and a summary of four zeros.
\<close>

theorem validateQuizSet_averageScore:
  "averageScore (summary (validateQuizSet qs opts)) =
     spec_averageScore (map (\<lambda>q. score (validateQuizQuestion q opts)) qs) \<and>
   averageScore (summary (validateQuizSet qs opts)) =
     Math_round
       (js_div (of_int (sum_list (map (\<lambda>q. score (validateQuizQuestion q opts)) qs)))
               (of_int (max 1 (int (length qs))))) \<and>
   validateQuizSet [] opts =
     \<lparr>set_valid = True, results = [],
      summary = \<lparr>total = 0, passed = 0, failed = 0, averageScore = 0\<rparr>\<rparr>"
proof -
  define rs where "rs = map (\<lambda>q. validateQuizQuestion q opts) qs"
  have m: "map score rs = map (\<lambda>q. score (validateQuizQuestion q opts)) qs"
    by (simp add: rs_def comp_def)
  have l: "length rs = length qs" by (simp add: rs_def)
  have "averageScore (summary (validateQuizSet qs opts)) =
      Math_round (js_div (of_int (foldl (\<lambda>sum r. sum + score r) 0 rs))
                         (of_int (max 1 (int (length rs)))))"
    unfolding validateQuizSet_def Let_def rs_def[symmetric] by simp
  then have a: "averageScore (summary (validateQuizSet qs opts)) =
      Math_round
        (js_div (of_int (sum_list (map (\<lambda>q. score (validateQuizQuestion q opts)) qs)))
                (of_int (max 1 (int (length qs)))))"
    by (simp only: foldl_score_sum m l add_0)
  have b: "spec_averageScore (map (\<lambda>q. score (validateQuizQuestion q opts)) qs) =
      Math_round
        (js_div (of_int (sum_list (map (\<lambda>q. score (validateQuizQuestion q opts)) qs)))
                (of_int (max 1 (int (length qs)))))"
    by (simp add: spec_averageScore_def)
  have c: "validateQuizSet [] opts =
     \<lparr>set_valid = True, results = [],
      summary = \<lparr>total = 0, passed = 0, failed = 0, averageScore = 0\<rparr>\<rparr>"
    by (simp add: validateQuizSet_def Let_def js_div_def fl_0 Math_round_0)
  from a b c show ?thesis by (simp only: simp_thms)
qed

text \<open>
  The two questions of the test suite, one valid with the score 100 and one with two
  errors of five checks and the score 60: their average is 80.
\<close>

lemma average_of_two_questions:
  "averageScore (summary (validateQuizSet [q_valid, q_blank] no_options)) = 80"
  by code_simp

section \<open>Examples and the field \<open>correctAnswer\<close>\<close>

text \<open>
  Against claim C9 as it is stated: the question text \<open>Q?\<close> has two characters, fewer
  than the default \<open>questionMinLength\<close> of 5, so the call returns two errors.
\<close>

theorem explanation_example_counterexample:
  "length (errors (validateQuizQuestion q_short opts_require_explanation)) = 2 \<and>
   map err_field (errors (validateQuizQuestion q_short opts_require_explanation)) =
     [''question'', ''explanation'']"
  by code_simp

text \<open>
  Claim C9, amended. \<open>validateQuizQuestion\<close> applied to the question with the text \<open>Q?\<close>
  and the options \<open>A\<close>, \<open>B\<close>, with \<open>requireExplanation\<close> on, returns two errors: one of kind
  \<open>minLength\<close> on the field \<open>question\<close>, then one of kind \<open>required\<close> on the field
  \<open>explanation\<close>, which is the only error on that field.
\<close>

theorem explanation_example:
  "errors (validateQuizQuestion q_short opts_require_explanation) =
     [\<lparr>err_field = ''question'',
       message = ''question must be at least 5 characters (got 2)'',
       err_value = Some (Str ''Q?''), rule = Some ''minLength''\<rparr>,
      \<lparr>err_field = ''explanation'', message = ''explanation is required'',
       err_value = Some Undefined, rule = Some ''required''\<rparr>] \<and>
   filter (\<lambda>e. err_field e = ''explanation'')
       (errors (validateQuizQuestion q_short opts_require_explanation)) =
     [\<lparr>err_field = ''explanation'', message = ''explanation is required'',
       err_value = Some Undefined, rule = Some ''required''\<rparr>]"
  by code_simp

text \<open>
  Against claim C10 as it is stated: a custom rule may name the field \<open>correctAnswer\<close>,
  and \<^verbatim>\<open>question[rule.field]\<close> then reads it. With such a rule, required, the question
  with an answer is valid and the same question without one is not.
\<close>

theorem correctAnswer_counterexample:
  "valid (validateQuizQuestion (q_valid\<lparr>correctAnswer := Some (S ''A'')\<rparr>) opts_answer_rule) \<and>
   \<not> valid (validateQuizQuestion q_valid opts_answer_rule)"
  by code_simp

lemma get_prop_correctAnswer_update:
  "k \<noteq> ''correctAnswer'' \<Longrightarrow> get_prop (q\<lparr>correctAnswer := c\<rparr>) k = get_prop q k"
  by (simp add: get_prop_def)

lemma custom_errors_correctAnswer_update:
  assumes "\<forall>r \<in> set (case customRules opts of None \<Rightarrow> [] | Some rs \<Rightarrow> rs).
             field r \<noteq> ''correctAnswer''"
  shows "custom_errors (q\<lparr>correctAnswer := c\<rparr>) opts = custom_errors q opts"
proof (cases "customRules opts")
  case None
  then show ?thesis by (simp add: custom_errors_def)
next
  case (Some rs)
  with assms have "\<forall>r \<in> set rs. field r \<noteq> ''correctAnswer''" by simp
  then have "map (\<lambda>r. pushed (validateField (get_prop (q\<lparr>correctAnswer := c\<rparr>) (field r)) r)) rs =
             map (\<lambda>r. pushed (validateField (get_prop q (field r)) r)) rs"
    by (intro map_cong refl) (simp add: get_prop_correctAnswer_update)
  then show ?thesis by (simp only: custom_errors_def Some option.case)
qed

text \<open>
  Claim C10, amended. When no custom rule of the configuration names the field
  \<open>correctAnswer\<close>, two questions that differ in \<open>correctAnswer\<close> only (one of them may
  lack it) get the same result: the same \<open>valid\<close>, errors, warnings and score.
\<close>

theorem correctAnswer_not_read:
  assumes "\<forall>r \<in> set (case customRules opts of None \<Rightarrow> [] | Some rs \<Rightarrow> rs).
             field r \<noteq> ''correctAnswer''"
  shows "validateQuizQuestion (q\<lparr>correctAnswer := c\<rparr>) opts = validateQuizQuestion q opts"
proof -
  have "custom_errors (q\<lparr>correctAnswer := c\<rparr>) opts = custom_errors q opts"
    using assms by (rule custom_errors_correctAnswer_update)
  then show ?thesis
    by (simp add: validateQuizQuestion_def Let_def question_errors_def options_errors_def
          explanation_errors_def category_errors_def difficulty_errors_def options_warnings_def
          totalChecks_def)
qed

theorem correctAnswer_not_read_witness:
  "customRules opts_points_rule = Some [rule_points] \<and>
   field rule_points \<noteq> ''correctAnswer'' \<and>
   validateQuizQuestion (q_points\<lparr>correctAnswer := Some (S ''A'')\<rparr>) opts_points_rule =
     validateQuizQuestion q_points opts_points_rule \<and>
   validateQuizQuestion (q_points\<lparr>correctAnswer := Some (N 7)\<rparr>) opts_points_rule =
     validateQuizQuestion (q_points\<lparr>correctAnswer := None\<rparr>) opts_points_rule"
proof -
  have c: "customRules opts_points_rule = Some [rule_points]"
    by (simp add: opts_points_rule_def no_options_def)
  have f: "field rule_points \<noteq> ''correctAnswer''"
    by (simp add: rule_points_def rule_for_def)
  have h: "\<forall>r \<in> set (case customRules opts_points_rule of None \<Rightarrow> [] | Some rs \<Rightarrow> rs).
             field r \<noteq> ''correctAnswer''"
    using c f by simp
  show ?thesis
    using c f correctAnswer_not_read[OF h, where q = q_points and c = "Some (S ''A'')"]
      correctAnswer_not_read[OF h, where q = q_points and c = "Some (N 7)"]
      correctAnswer_not_read[OF h, where q = q_points and c = None]
    by simp
qed

end
